theory Spec2Isabelle
  imports Main "HOL-Library.Word"
begin

section \<open>Disk representations of code (lib/diskrep.h)\<close>

text \<open>
  \<^verbatim>\<open>DiskRep\<close> is an abstract class with virtual member functions; \<^verbatim>\<open>FilterRep\<close> is a
  subclass that holds a reference-counted pointer \<^verbatim>\<open>mOriginal\<close> to another
  \<^verbatim>\<open>DiskRep\<close>. Objects live in a heap and are named by their address, so that one
  underlying representation can be shared by several holders. A member function takes
  the address of its receiver and the heap, and gives back its result together with the
  heap it leaves behind. A C++ exception is the \<open>Inl\<close> summand of the result. A call that
  does not come back at all (the receiver pointer is null or dangling, or a chain of
  filters never reaches a concrete representation) is the value \<open>None\<close>.
\<close>

subsection \<open>Plain data\<close>

type_synonym addr = nat

text \<open>\<^verbatim>\<open>size_t\<close> and \<^verbatim>\<open>off_t\<close> are taken at 64 bits. The code modelled here compares and
  passes them on and does no arithmetic on them.\<close>

type_synonym size_t = "64 word"
type_synonym off_t = "64 word"

text \<open>CoreFoundation handles are modelled by what they hold; a null handle is \<open>None\<close>.\<close>

type_synonym CFData = "8 word list"
type_synonym CFURL = string
type_synonym CFDictionary = "(string \<times> string) list"
type_synonym CFArray = "CFURL list"
type_synonym FileDesc = int
type_synonym Requirements = "(nat \<times> string) list"
type_synonym ResourceBuilder = "string list"

text \<open>Modelled from the spec: the exception classes are declared in headers that are not
  part of these sources. The spec sorts what can be thrown into resolution failures,
  I/O failures (with the errno of the failed call), structural parse failures and
  validity failures (with a reason code).
\<close>

datatype error =
    ResolutionFailure
  | IOFailure int
  | StructuralParseFailure
  | ValidityFailure int

text \<open>Modelled from the spec: class \<^verbatim>\<open>Architecture\<close> is declared in
  \<^verbatim>\<open>security_utilities/macho++.h\<close>, which is not part of these sources. The spec gives
  it a distinguished value "none" (architecture unspecified); every other value names a
  CPU type and subtype.
\<close>

datatype Architecture = Architecture_none | Architecture (cpuType: "32 word") (cpuSubtype: "32 word")

text \<open>Modelled from the spec: a parsed Mach-O/Universal image (\<^verbatim>\<open>Universal\<close>, also from
  \<^verbatim>\<open>macho++.h\<close>) is used here only as an opaque handle that is null or not; it is
  represented by the slices it holds (architecture and file offset).
\<close>

type_synonym Universal = "(Architecture \<times> off_t) list"

text \<open>\<^verbatim>\<open>struct DiskRep::Context\<close> and its default constructor
  \<^verbatim>\<open>Context() : arch(Architecture::none), offset(0), fileOnly(false) { }\<close>.\<close>

record Context =
  arch :: Architecture
  offset :: off_t
  fileOnly :: bool

definition Context_init :: Context where
  "Context_init = \<lparr>arch = Architecture_none, offset = 0, fileOnly = False\<rparr>"

text \<open>\<^verbatim>\<open>static const size_t segmentedPageSize = 4096\<close> and
  \<^verbatim>\<open>static const size_t monolithicPageSize = 0\<close>.\<close>

definition segmentedPageSize :: size_t where
  "segmentedPageSize = 4096"

definition monolithicPageSize :: size_t where
  "monolithicPageSize = 0"

subsection \<open>Objects and virtual dispatch\<close>

text \<open>
  The concrete subclasses of \<^verbatim>\<open>DiskRep\<close> are not declared in this header. A concrete
  object is therefore given by its private fields, of some type \<open>'st\<close>, and by its table
  of virtual member functions, each of which reads and updates those fields and may
  throw. The pure virtual functions of \<^verbatim>\<open>DiskRep\<close> (\<^verbatim>\<open>= 0\<close>) must be supplied by the
  subclass; those that have a body in \<^verbatim>\<open>DiskRep\<close> are inherited unless the subclass
  overrides them, so their table entry is optional.
\<close>

type_synonym ('a, 'st) member = "'st \<Rightarrow> (error + 'a) \<times> 'st"

record 'st vtable =
  impl_identification :: "(CFData option, 'st) member"
  impl_mainExecutablePath :: "(string, 'st) member"
  impl_canonicalPath :: "(CFURL option, 'st) member"
  impl_recommendedIdentifier :: "(string, 'st) member"
  impl_signingLimit :: "(size_t, 'st) member"
  impl_format :: "(string, 'st) member"
  impl_fd :: "(FileDesc, 'st) member"
  impl_resourcesRootPath :: "(string, 'st) member option"
  impl_defaultResourceRules :: "(CFDictionary option, 'st) member option"
  impl_adjustResources :: "(ResourceBuilder \<Rightarrow> (ResourceBuilder, 'st) member) option"
  impl_defaultRequirements :: "(Architecture option \<Rightarrow> (Requirements option, 'st) member) option"
  impl_mainExecutableImage :: "(Universal option, 'st) member option"
  impl_pageSize :: "(size_t, 'st) member option"
  impl_signingBase :: "(size_t, 'st) member option"
  impl_modifiedFiles :: "(CFArray option, 'st) member option"
  impl_flush :: "(unit, 'st) member option"

text \<open>
  \<^verbatim>\<open>component()\<close> stays pure virtual in \<^verbatim>\<open>FilterRep\<close>, and \<^verbatim>\<open>base()\<close> and
  \<^verbatim>\<open>writer()\<close> answer for the object itself; the properties below are about the other
  virtual functions, so these three have no entry.
\<close>

text \<open>
  An object is either an instance of a concrete subclass, or a \<^verbatim>\<open>FilterRep\<close>: the
  fields \<open>'f\<close> of the filter subclass (which implements \<^verbatim>\<open>component()\<close>, still pure
  virtual in \<^verbatim>\<open>FilterRep\<close>) and the pointer \<^verbatim>\<open>mOriginal\<close> set by the constructor
  \<^verbatim>\<open>FilterRep(DiskRep *orig) : mOriginal(orig) { }\<close>.
\<close>

datatype ('st, 'f) DiskRep =
    Concrete "'st vtable" 'st
  | FilterRep 'f (mOriginal: addr)

type_synonym ('st, 'f) heap = "addr \<rightharpoonup> ('st, 'f) DiskRep"

type_synonym ('a, 'st, 'f) call = "((error + 'a) \<times> ('st, 'f) heap) option"

text \<open>Running a member function of the concrete object at \<open>this\<close>: the object's fields are
  replaced by what the function leaves (also when it throws).\<close>

definition invoke ::
  "addr \<Rightarrow> ('st, 'f) heap \<Rightarrow> 'st vtable \<Rightarrow> ('a, 'st) member \<Rightarrow> 'st \<Rightarrow> (error + 'a) \<times> ('st, 'f) heap" where
  "invoke this h vt m st = (case m st of (r, st') \<Rightarrow> (r, h(this \<mapsto> Concrete vt st')))"

subsection \<open>Member functions that FilterRep hands to the original\<close>

text \<open>
  \<^verbatim>\<open>std::string mainExecutablePath() { return mOriginal->mainExecutablePath(); }\<close>
  and its siblings \<^verbatim>\<open>identification\<close>, \<^verbatim>\<open>canonicalPath\<close>, \<^verbatim>\<open>recommendedIdentifier\<close>,
  \<^verbatim>\<open>signingLimit\<close>, \<^verbatim>\<open>format\<close>, \<^verbatim>\<open>fd\<close>, all pure virtual in \<^verbatim>\<open>DiskRep\<close>.
\<close>

partial_function (option) identification ::
  "addr \<Rightarrow> ('st, 'f) heap \<Rightarrow> (CFData option, 'st, 'f) call" where
  "identification this h =
     (case h this of
        None \<Rightarrow> None
      | Some (Concrete vt st) \<Rightarrow> Some (invoke this h vt (impl_identification vt) st)
      | Some (FilterRep k orig) \<Rightarrow> identification orig h)"

partial_function (option) mainExecutablePath ::
  "addr \<Rightarrow> ('st, 'f) heap \<Rightarrow> (string, 'st, 'f) call" where
  "mainExecutablePath this h =
     (case h this of
        None \<Rightarrow> None
      | Some (Concrete vt st) \<Rightarrow> Some (invoke this h vt (impl_mainExecutablePath vt) st)
      | Some (FilterRep k orig) \<Rightarrow> mainExecutablePath orig h)"

partial_function (option) canonicalPath ::
  "addr \<Rightarrow> ('st, 'f) heap \<Rightarrow> (CFURL option, 'st, 'f) call" where
  "canonicalPath this h =
     (case h this of
        None \<Rightarrow> None
      | Some (Concrete vt st) \<Rightarrow> Some (invoke this h vt (impl_canonicalPath vt) st)
      | Some (FilterRep k orig) \<Rightarrow> canonicalPath orig h)"

partial_function (option) recommendedIdentifier ::
  "addr \<Rightarrow> ('st, 'f) heap \<Rightarrow> (string, 'st, 'f) call" where
  "recommendedIdentifier this h =
     (case h this of
        None \<Rightarrow> None
      | Some (Concrete vt st) \<Rightarrow> Some (invoke this h vt (impl_recommendedIdentifier vt) st)
      | Some (FilterRep k orig) \<Rightarrow> recommendedIdentifier orig h)"

partial_function (option) signingLimit ::
  "addr \<Rightarrow> ('st, 'f) heap \<Rightarrow> (size_t, 'st, 'f) call" where
  "signingLimit this h =
     (case h this of
        None \<Rightarrow> None
      | Some (Concrete vt st) \<Rightarrow> Some (invoke this h vt (impl_signingLimit vt) st)
      | Some (FilterRep k orig) \<Rightarrow> signingLimit orig h)"

partial_function (option) format ::
  "addr \<Rightarrow> ('st, 'f) heap \<Rightarrow> (string, 'st, 'f) call" where
  "format this h =
     (case h this of
        None \<Rightarrow> None
      | Some (Concrete vt st) \<Rightarrow> Some (invoke this h vt (impl_format vt) st)
      | Some (FilterRep k orig) \<Rightarrow> format orig h)"

partial_function (option) fd ::
  "addr \<Rightarrow> ('st, 'f) heap \<Rightarrow> (FileDesc, 'st, 'f) call" where
  "fd this h =
     (case h this of
        None \<Rightarrow> None
      | Some (Concrete vt st) \<Rightarrow> Some (invoke this h vt (impl_fd vt) st)
      | Some (FilterRep k orig) \<Rightarrow> fd orig h)"

subsection \<open>Bodies of DiskRep's own virtual functions\<close>

text \<open>
  The virtual functions that are declared without \<^verbatim>\<open>= 0\<close> have a body in \<^verbatim>\<open>DiskRep\<close>,
  which every subclass inherits unless it overrides the function. These bodies are
  defined in \<^verbatim>\<open>diskrep.cpp\<close>, which is not part of these sources.
\<close>

text \<open>Modelled from the spec: \<^verbatim>\<open>DiskRep::resourcesRootPath()\<close> is missing;
  "a representation with no resource concept returns none/empty".\<close>

definition DiskRep_resourcesRootPath :: "addr \<Rightarrow> ('st, 'f) heap \<Rightarrow> (error + string) \<times> ('st, 'f) heap" where
  "DiskRep_resourcesRootPath this h = (Inr [], h)"

text \<open>Modelled from the spec: \<^verbatim>\<open>DiskRep::defaultResourceRules()\<close> is missing;
  "a representation with no resource concept returns none/empty".\<close>

definition DiskRep_defaultResourceRules ::
  "addr \<Rightarrow> ('st, 'f) heap \<Rightarrow> (error + CFDictionary option) \<times> ('st, 'f) heap" where
  "DiskRep_defaultResourceRules this h = (Inr None, h)"

text \<open>Modelled from the spec: \<^verbatim>\<open>DiskRep::adjustResources(builder)\<close> is missing;
  "a representation with no resource concept ... is a no-op for adjustResources".
  The builder is passed by reference, so the call gives back the builder it leaves.\<close>

definition DiskRep_adjustResources ::
  "addr \<Rightarrow> ResourceBuilder \<Rightarrow> ('st, 'f) heap \<Rightarrow> (error + ResourceBuilder) \<times> ('st, 'f) heap" where
  "DiskRep_adjustResources this builder h = (Inr builder, h)"

text \<open>Modelled from the spec: \<^verbatim>\<open>DiskRep::defaultRequirements(arch)\<close> is missing;
  optional queries (resources, default requirements, modified-files list) "return
  empty/none".\<close>

definition DiskRep_defaultRequirements ::
  "addr \<Rightarrow> Architecture option \<Rightarrow> ('st, 'f) heap \<Rightarrow> (error + Requirements option) \<times> ('st, 'f) heap" where
  "DiskRep_defaultRequirements this a h = (Inr None, h)"

text \<open>Modelled from the spec: \<^verbatim>\<open>DiskRep::mainExecutableImage()\<close> is missing; "the
  parsed Mach-O/Universal view if the main executable is such a binary, else absent".\<close>

definition DiskRep_mainExecutableImage ::
  "addr \<Rightarrow> ('st, 'f) heap \<Rightarrow> (error + Universal option) \<times> ('st, 'f) heap" where
  "DiskRep_mainExecutableImage this h = (Inr None, h)"

text \<open>Modelled from the spec: \<^verbatim>\<open>DiskRep::signingBase()\<close> is missing;
  "signingBase() defaults to 0".\<close>

definition DiskRep_signingBase :: "addr \<Rightarrow> ('st, 'f) heap \<Rightarrow> (error + size_t) \<times> ('st, 'f) heap" where
  "DiskRep_signingBase this h = (Inr 0, h)"

text \<open>Modelled from the spec: \<^verbatim>\<open>DiskRep::modifiedFiles()\<close> is missing; optional
  queries (resources, default requirements, modified-files list) "return empty/none".\<close>

definition DiskRep_modifiedFiles :: "addr \<Rightarrow> ('st, 'f) heap \<Rightarrow> (error + CFArray option) \<times> ('st, 'f) heap" where
  "DiskRep_modifiedFiles this h = (Inr None, h)"

text \<open>Modelled from the spec: \<^verbatim>\<open>DiskRep::flush()\<close> is missing; "default no-op for
  representations with nothing to invalidate".\<close>

definition DiskRep_flush :: "addr \<Rightarrow> ('st, 'f) heap \<Rightarrow> (error + unit) \<times> ('st, 'f) heap" where
  "DiskRep_flush this h = (Inr (), h)"

subsection \<open>Member functions with a body in DiskRep that FilterRep hands to the original\<close>

text \<open>\<^verbatim>\<open>std::string resourcesRootPath() { return mOriginal->resourcesRootPath(); }\<close>\<close>

partial_function (option) resourcesRootPath ::
  "addr \<Rightarrow> ('st, 'f) heap \<Rightarrow> (string, 'st, 'f) call" where
  "resourcesRootPath this h =
     (case h this of
        None \<Rightarrow> None
      | Some (Concrete vt st) \<Rightarrow>
          (case impl_resourcesRootPath vt of
             None \<Rightarrow> Some (DiskRep_resourcesRootPath this h)
           | Some m \<Rightarrow> Some (invoke this h vt m st))
      | Some (FilterRep k orig) \<Rightarrow> resourcesRootPath orig h)"

text \<open>\<^verbatim>\<open>CFDictionaryRef defaultResourceRules() { return mOriginal->defaultResourceRules(); }\<close>\<close>

partial_function (option) defaultResourceRules ::
  "addr \<Rightarrow> ('st, 'f) heap \<Rightarrow> (CFDictionary option, 'st, 'f) call" where
  "defaultResourceRules this h =
     (case h this of
        None \<Rightarrow> None
      | Some (Concrete vt st) \<Rightarrow>
          (case impl_defaultResourceRules vt of
             None \<Rightarrow> Some (DiskRep_defaultResourceRules this h)
           | Some m \<Rightarrow> Some (invoke this h vt m st))
      | Some (FilterRep k orig) \<Rightarrow> defaultResourceRules orig h)"

text \<open>\<^verbatim>\<open>Universal *mainExecutableImage() { return mOriginal->mainExecutableImage(); }\<close>\<close>

partial_function (option) mainExecutableImage ::
  "addr \<Rightarrow> ('st, 'f) heap \<Rightarrow> (Universal option, 'st, 'f) call" where
  "mainExecutableImage this h =
     (case h this of
        None \<Rightarrow> None
      | Some (Concrete vt st) \<Rightarrow>
          (case impl_mainExecutableImage vt of
             None \<Rightarrow> Some (DiskRep_mainExecutableImage this h)
           | Some m \<Rightarrow> Some (invoke this h vt m st))
      | Some (FilterRep k orig) \<Rightarrow> mainExecutableImage orig h)"

text \<open>\<^verbatim>\<open>size_t signingBase() { return mOriginal->signingBase(); }\<close>\<close>

partial_function (option) signingBase ::
  "addr \<Rightarrow> ('st, 'f) heap \<Rightarrow> (size_t, 'st, 'f) call" where
  "signingBase this h =
     (case h this of
        None \<Rightarrow> None
      | Some (Concrete vt st) \<Rightarrow>
          (case impl_signingBase vt of
             None \<Rightarrow> Some (DiskRep_signingBase this h)
           | Some m \<Rightarrow> Some (invoke this h vt m st))
      | Some (FilterRep k orig) \<Rightarrow> signingBase orig h)"

text \<open>\<^verbatim>\<open>void flush() { return mOriginal->flush(); }\<close>\<close>

partial_function (option) flush ::
  "addr \<Rightarrow> ('st, 'f) heap \<Rightarrow> (unit, 'st, 'f) call" where
  "flush this h =
     (case h this of
        None \<Rightarrow> None
      | Some (Concrete vt st) \<Rightarrow>
          (case impl_flush vt of
             None \<Rightarrow> Some (DiskRep_flush this h)
           | Some m \<Rightarrow> Some (invoke this h vt m st))
      | Some (FilterRep k orig) \<Rightarrow> flush orig h)"

text \<open>The recursive equations are the code equations of these functions.\<close>

declare identification.simps [code]
declare mainExecutablePath.simps [code]
declare canonicalPath.simps [code]
declare recommendedIdentifier.simps [code]
declare signingLimit.simps [code]
declare format.simps [code]
declare fd.simps [code]
declare resourcesRootPath.simps [code]
declare defaultResourceRules.simps [code]
declare mainExecutableImage.simps [code]
declare signingBase.simps [code]
declare flush.simps [code]

text \<open>The non-virtual helper
  \<^verbatim>\<open>bool mainExecutableIsMachO() { return mainExecutableImage() != NULL; }\<close>\<close>

definition mainExecutableIsMachO :: "addr \<Rightarrow> ('st, 'f) heap \<Rightarrow> (bool, 'st, 'f) call" where
  "mainExecutableIsMachO this h =
     (case mainExecutableImage this h of
        None \<Rightarrow> None
      | Some (Inl e, h') \<Rightarrow> Some (Inl e, h')
      | Some (Inr img, h') \<Rightarrow> Some (Inr (img \<noteq> None), h'))"

subsection \<open>Member functions that FilterRep does not declare\<close>

text \<open>Modelled from the spec: \<^verbatim>\<open>DiskRep::pageSize()\<close> is missing; "for a representation
  whose main executable is Mach-O, pageSize() yields the segmented default (4096) unless
  explicitly overridden; for a non-Mach-O flat executable, it yields the monolithic
  default (0)", and \<^verbatim>\<open>mainExecutableImage()\<close> "is the sole sanctioned way to detect"
  a Mach-O main executable.
\<close>

definition DiskRep_pageSize :: "addr \<Rightarrow> ('st, 'f) heap \<Rightarrow> (size_t, 'st, 'f) call" where
  "DiskRep_pageSize this h =
     (case mainExecutableIsMachO this h of
        None \<Rightarrow> None
      | Some (Inl e, h') \<Rightarrow> Some (Inl e, h')
      | Some (Inr macho, h') \<Rightarrow>
          Some (Inr (if macho then segmentedPageSize else monolithicPageSize), h'))"

text \<open>
  \<^verbatim>\<open>class FilterRep\<close> declares no \<^verbatim>\<open>pageSize\<close>, \<^verbatim>\<open>adjustResources\<close>,
  \<^verbatim>\<open>defaultRequirements\<close> or \<^verbatim>\<open>modifiedFiles\<close>: a call of one of them on a
  filter runs the body inherited from \<^verbatim>\<open>DiskRep\<close>, with the filter as receiver.
\<close>

definition pageSize :: "addr \<Rightarrow> ('st, 'f) heap \<Rightarrow> (size_t, 'st, 'f) call" where
  "pageSize this h =
     (case h this of
        None \<Rightarrow> None
      | Some (Concrete vt st) \<Rightarrow>
          (case impl_pageSize vt of
             None \<Rightarrow> DiskRep_pageSize this h
           | Some m \<Rightarrow> Some (invoke this h vt m st))
      | Some (FilterRep k orig) \<Rightarrow> DiskRep_pageSize this h)"

text \<open>Whether the object at an address runs \<^verbatim>\<open>DiskRep\<close>'s own \<^verbatim>\<open>pageSize()\<close>: its class
  does not override it.\<close>

definition inherits_pageSize :: "('st, 'f) heap \<Rightarrow> addr \<Rightarrow> bool" where
  "inherits_pageSize h this =
     (case h this of
        None \<Rightarrow> False
      | Some (Concrete vt st) \<Rightarrow> impl_pageSize vt = None
      | Some (FilterRep k orig) \<Rightarrow> True)"

definition adjustResources ::
  "addr \<Rightarrow> ResourceBuilder \<Rightarrow> ('st, 'f) heap \<Rightarrow> (ResourceBuilder, 'st, 'f) call" where
  "adjustResources this builder h =
     (case h this of
        None \<Rightarrow> None
      | Some (Concrete vt st) \<Rightarrow>
          (case impl_adjustResources vt of
             None \<Rightarrow> Some (DiskRep_adjustResources this builder h)
           | Some m \<Rightarrow> Some (invoke this h vt (m builder) st))
      | Some (FilterRep k orig) \<Rightarrow> Some (DiskRep_adjustResources this builder h))"

definition defaultRequirements ::
  "addr \<Rightarrow> Architecture option \<Rightarrow> ('st, 'f) heap \<Rightarrow> (Requirements option, 'st, 'f) call" where
  "defaultRequirements this a h =
     (case h this of
        None \<Rightarrow> None
      | Some (Concrete vt st) \<Rightarrow>
          (case impl_defaultRequirements vt of
             None \<Rightarrow> Some (DiskRep_defaultRequirements this a h)
           | Some m \<Rightarrow> Some (invoke this h vt (m a) st))
      | Some (FilterRep k orig) \<Rightarrow> Some (DiskRep_defaultRequirements this a h))"

definition modifiedFiles :: "addr \<Rightarrow> ('st, 'f) heap \<Rightarrow> (CFArray option, 'st, 'f) call" where
  "modifiedFiles this h =
     (case h this of
        None \<Rightarrow> None
      | Some (Concrete vt st) \<Rightarrow>
          (case impl_modifiedFiles vt of
             None \<Rightarrow> Some (DiskRep_modifiedFiles this h)
           | Some m \<Rightarrow> Some (invoke this h vt m st))
      | Some (FilterRep k orig) \<Rightarrow> Some (DiskRep_modifiedFiles this h))"

section \<open>Resolving a path to a representation\<close>

text \<open>
  \<^verbatim>\<open>static DiskRep *bestGuess(const char *path, const Context *ctx = NULL)\<close> and
  \<^verbatim>\<open>static DiskRep *bestFileGuess(const char *path, const Context *ctx = NULL)\<close> are
  declared in \<^verbatim>\<open>diskrep.h\<close> and defined in \<^verbatim>\<open>diskrep.cpp\<close>, which is not part of
  these sources; so are the concrete representation classes they construct.
\<close>

text \<open>Modelled from the spec: the single-file structures that the missing \<^verbatim>\<open>bestGuess\<close>
  tells apart, as the external collaborators (file system, Mach-O reader) find them at a
  path. The spec names the kinds "single Mach-O file, fat/universal Mach-O
  requiring architecture/offset disambiguation, application bundle, flat file, or other
  recognized container"; a path may be "both a valid bundle directory" and "a
  single-file candidate", so the two views are kept apart. A view that is \<open>None\<close> has
  no recognizable structure of that kind.
\<close>

datatype file_structure =
    SingleMachO Architecture
  | FatMachO "(Architecture \<times> off_t) list"
  | FlatFile
  | OtherContainer

text \<open>Modelled from the spec: what the missing \<^verbatim>\<open>bestGuess\<close> learns by inspecting a path:
  the bundle structure
  found there (the path of the bundle's main executable) and the single-file structure
  found there; "for a path that is both a valid bundle directory and contains a
  single-file candidate" both are present.\<close>

record inspection =
  bundle_view :: "string option"
  file_view :: "file_structure option"

text \<open>Modelled from the spec: the file system that the missing \<^verbatim>\<open>bestGuess\<close> looks at;
  inspecting a path either fails ("missing file \<open>\<rightarrow>\<close> I/O failure surfaced to caller")
  or tells what is there.\<close>

type_synonym disk = "string \<Rightarrow> error + inspection"

text \<open>Modelled from the spec: the concrete representation classes are missing; the
  representation that resolution settles on is named by its kind, its path (for a
  bundle also the path of its main executable) and, for a Mach-O file, the slice that
  was asked for.\<close>

datatype representation =
    BundleRep string string
  | MachORep string "(Architecture \<times> off_t) option"
  | FileRep string
  | ContainerRep string

text \<open>Modelled from the spec: the choice of a slice in the missing \<^verbatim>\<open>bestGuess\<close>; "an
  explicit offset or explicit architecture in Context takes precedence over any
  auto-detected slice", and the defaults of \<^verbatim>\<open>Context\<close> stand for "not given".\<close>

definition wanted_slice :: "Context \<Rightarrow> Architecture \<times> off_t \<Rightarrow> bool" where
  "wanted_slice c s =
     ((arch c = Architecture_none \<or> fst s = arch c) \<and> (offset c = 0 \<or> snd s = offset c))"

text \<open>Modelled from the spec: \<^verbatim>\<open>DiskRep::bestGuess(path, ctx)\<close> is missing. "\<^verbatim>\<open>fileOnly\<close>
  suppresses any bundle-style resolution even if the path is a directory with bundle
  structure. Exactly one concrete representation is returned; resolution that finds no
  recognizable structure fails with an "unrecognized format" condition rather than
  guessing a default." A resolution failure is also that a "required
  offset/architecture does not exist in a fat container". An absent context gives no
  hints.
\<close>

definition bestGuess :: "disk \<Rightarrow> string \<Rightarrow> Context option \<Rightarrow> error + representation" where
  "bestGuess disk path ctx =
     (let c = (case ctx of None \<Rightarrow> Context_init | Some c \<Rightarrow> c) in
      case disk path of
        Inl e \<Rightarrow> Inl e
      | Inr found \<Rightarrow>
          (case (if fileOnly c then None else bundle_view found) of
             Some exec \<Rightarrow> Inr (BundleRep path exec)
           | None \<Rightarrow>
               (case file_view found of
                  None \<Rightarrow> Inl ResolutionFailure
                | Some (SingleMachO a) \<Rightarrow> Inr (MachORep path None)
                | Some (FatMachO slices) \<Rightarrow>
                    (if arch c = Architecture_none \<and> offset c = 0 then Inr (MachORep path None)
                     else case find (wanted_slice c) slices of
                            None \<Rightarrow> Inl ResolutionFailure
                          | Some s \<Rightarrow> Inr (MachORep path (Some s)))
                | Some FlatFile \<Rightarrow> Inr (FileRep path)
                | Some OtherContainer \<Rightarrow> Inr (ContainerRep path))))"

text \<open>Modelled from the spec: \<^verbatim>\<open>DiskRep::bestFileGuess(path, ctx)\<close> is missing.
  "\<^verbatim>\<open>bestFileGuess\<close> is \<^verbatim>\<open>bestGuess\<close> with \<^verbatim>\<open>fileOnly\<close> forced true regardless of the
  passed context"; the header says \<^verbatim>\<open>// ctx (if any) + fileOnly\<close>, and a \<^verbatim>\<open>Context\<close>
  is "passed by the caller, never mutated by DiskRep". The function therefore works on
  a local \<^verbatim>\<open>Context\<close> of its own. Its variables are the caller's context behind the
  pointer \<^verbatim>\<open>ctx\<close> (if the pointer is not null) and the local \<^verbatim>\<open>dctx\<close>.
\<close>

record bestFileGuess_frame =
  caller_ctx :: "Context option"
  dctx :: Context

text \<open>Modelled from the spec: the statements of \<^verbatim>\<open>bestFileGuess\<close> up to its call of
  \<^verbatim>\<open>bestGuess\<close>: the local context starts as a default \<^verbatim>\<open>Context\<close>, takes over the
  caller's context if there is one ("ctx (if any)"), and gets \<^verbatim>\<open>fileOnly\<close> "forced
  true"; the caller's context is "never mutated".\<close>

definition bestFileGuess_locals :: "Context option \<Rightarrow> bestFileGuess_frame" where
  "bestFileGuess_locals ctx =
     (let fr = \<lparr>caller_ctx = ctx, dctx = Context_init\<rparr>;
          fr = (case caller_ctx fr of None \<Rightarrow> fr | Some c \<Rightarrow> fr\<lparr>dctx := c\<rparr>);
          fr = fr\<lparr>dctx := (dctx fr)\<lparr>fileOnly := True\<rparr>\<rparr>
      in fr)"

text \<open>Modelled from the spec: "\<^verbatim>\<open>bestFileGuess\<close> is \<^verbatim>\<open>bestGuess\<close> with \<^verbatim>\<open>fileOnly\<close> forced
  true regardless of the passed context": \<^verbatim>\<open>bestGuess\<close> is called with the local
  context.\<close>

definition bestFileGuess :: "disk \<Rightarrow> string \<Rightarrow> Context option \<Rightarrow> error + representation" where
  "bestFileGuess disk path ctx = bestGuess disk path (Some (dctx (bestFileGuess_locals ctx)))"





section \<open>SecCode API objects (lib/Code.h)\<close>

text \<open>
  A \<^verbatim>\<open>SecCode\<close> has two private members, \<^verbatim>\<open>SecPointer<SecCode> mHost\<close> and
  \<^verbatim>\<open>SecPointer<SecStaticCode> mStaticCode\<close>. A pointer is an address or null; the
  identity of a \<^verbatim>\<open>SecStaticCode\<close> is its address.
\<close>

record SecCode =
  mHost :: "addr option"
  mStaticCode :: "addr option"

text \<open>Modelled from the spec: the constructor \<^verbatim>\<open>SecCode(SecCode *host)\<close> is missing; a
  \<^verbatim>\<open>SecCode\<close> "optionally has exactly one host", and its cache is filled by the "first
  successful \<^verbatim>\<open>getStaticCode()\<close> call".\<close>

definition SecCode_init :: "addr option \<Rightarrow> SecCode" where
  "SecCode_init h = \<lparr>mHost = h, mStaticCode = None\<rparr>"

text \<open>Modelled from the spec: \<^verbatim>\<open>SecCode *host() const\<close> is missing;
  "\<^verbatim>\<open>host() -> SecCode-or-none\<close>: accessor, no side effect".\<close>

definition host :: "SecCode \<Rightarrow> addr option" where
  "host c = mHost c"

text \<open>\<^verbatim>\<open>bool isRoot() const { return host() == NULL; }\<close>\<close>

definition isRoot :: "SecCode \<Rightarrow> bool" where
  "isRoot c = (host c = None)"

text \<open>
  \<^verbatim>\<open>virtual SecStaticCode *getStaticCode()\<close> is the hook that a subclass supplies. It
  reads the world outside the object (of some type \<open>'w\<close>: the file system, the
  processes), may change it (the result is a new object that the caller owns), and
  may throw.
\<close>

type_synonym 'w getStaticCode = "SecCode \<Rightarrow> 'w \<Rightarrow> (error + addr) \<times> 'w"

text \<open>Modelled from the spec: \<^verbatim>\<open>SecStaticCode *staticCode()\<close> is missing; it "returns the
  cached static code if present; otherwise invokes \<^verbatim>\<open>getStaticCode()\<close> (virtual hook,
  subclass supplies representation-specific resolution), caches the result, and returns
  it", and "a failed \<^verbatim>\<open>getStaticCode()\<close> must not populate the cache".
\<close>

definition staticCode :: "'w getStaticCode \<Rightarrow> SecCode \<Rightarrow> 'w \<Rightarrow> (error + addr) \<times> SecCode \<times> 'w" where
  "staticCode getStaticCode c w =
     (case mStaticCode c of
        Some sc \<Rightarrow> (Inr sc, c, w)
      | None \<Rightarrow>
          (case getStaticCode c w of
             (Inl e, w') \<Rightarrow> (Inl e, c, w')
           | (Inr sc, w') \<Rightarrow> (Inr sc, c\<lparr>mStaticCode := Some sc\<rparr>, w')))"

section \<open>Concrete inputs\<close>

text \<open>
  A world for \<^verbatim>\<open>getStaticCode()\<close>: the file that holds the code is there or not, and
  every successful resolution makes a new \<^verbatim>\<open>SecStaticCode\<close> at the next free address.
\<close>

record world =
  file_present :: bool
  next_free :: addr

definition resolve_on_disk :: "world getStaticCode" where
  "resolve_on_disk c w =
     (if file_present w then (Inr (next_free w), w\<lparr>next_free := Suc (next_free w)\<rparr>)
      else (Inl (IOFailure 2), w))"



subsection \<open>A heap to evaluate on\<close>

text \<open>
  The concrete subclasses are not part of these sources. The theorems below are
  evaluated on a heap of four objects. At address 0 is the representation of a bundle
  with a Mach-O main executable; it overrides every virtual function except
  \<^verbatim>\<open>pageSize()\<close>, opens its file on the first \<^verbatim>\<open>fd()\<close> and forgets the
  descriptor on \<^verbatim>\<open>flush()\<close>. At address 2 is the representation of a flat file,
  which supplies the pure virtual functions only. At addresses 1 and 3 are filters over
  the bundle and over the flat file.
\<close>

record rep_fields =
  f_root :: string
  f_executable :: string
  f_size :: size_t
  cached_fd :: "FileDesc option"

definition bundle_vtable :: "rep_fields vtable" where
  "bundle_vtable = \<lparr>
     impl_identification = (\<lambda>st. (Inr (Some [0xCA, 0xFE]), st)),
     impl_mainExecutablePath = (\<lambda>st. (Inr (f_executable st), st)),
     impl_canonicalPath = (\<lambda>st. (Inr (Some (f_root st)), st)),
     impl_recommendedIdentifier = (\<lambda>st. (Inr ''com.example.tool'', st)),
     impl_signingLimit = (\<lambda>st. (Inr (f_size st), st)),
     impl_format = (\<lambda>st. (Inr ''bundle with Mach-O'', st)),
     impl_fd = (\<lambda>st. case cached_fd st of
                        Some d \<Rightarrow> (Inr d, st)
                      | None \<Rightarrow> (Inr 3, st\<lparr>cached_fd := Some 3\<rparr>)),
     impl_resourcesRootPath = Some (\<lambda>st. (Inr (f_root st @ ''/Contents/Resources''), st)),
     impl_defaultResourceRules = Some (\<lambda>st. (Inr (Some [(''^Resources/'', ''true'')]), st)),
     impl_adjustResources = Some (\<lambda>builder st. (Inr (builder @ [''^version.plist$'']), st)),
     impl_defaultRequirements = Some (\<lambda>a st. (Inr (Some [(2, ''library'')]), st)),
     impl_mainExecutableImage = Some (\<lambda>st. (Inr (Some [(Architecture 7 3, 0)]), st)),
     impl_pageSize = None,
     impl_signingBase = Some (\<lambda>st. (Inr 4096, st)),
     impl_modifiedFiles =
       Some (\<lambda>st. (Inr (Some [f_executable st, f_root st @ ''/Contents/CodeResources'']), st)),
     impl_flush = Some (\<lambda>st. (Inr (), st\<lparr>cached_fd := None\<rparr>))\<rparr>"

definition file_vtable :: "rep_fields vtable" where
  "file_vtable = \<lparr>
     impl_identification = (\<lambda>st. (Inr None, st)),
     impl_mainExecutablePath = (\<lambda>st. (Inr (f_executable st), st)),
     impl_canonicalPath = (\<lambda>st. (Inr (Some (f_root st)), st)),
     impl_recommendedIdentifier = (\<lambda>st. (Inr ''script'', st)),
     impl_signingLimit = (\<lambda>st. (Inr (f_size st), st)),
     impl_format = (\<lambda>st. (Inr ''generic'', st)),
     impl_fd = (\<lambda>st. case cached_fd st of
                        Some d \<Rightarrow> (Inr d, st)
                      | None \<Rightarrow> (Inl (IOFailure 13), st)),
     impl_resourcesRootPath = None,
     impl_defaultResourceRules = None,
     impl_adjustResources = None,
     impl_defaultRequirements = None,
     impl_mainExecutableImage = None,
     impl_pageSize = None,
     impl_signingBase = None,
     impl_modifiedFiles = None,
     impl_flush = None\<rparr>"

definition bundle_rep :: "(rep_fields, unit) DiskRep" where
  "bundle_rep = Concrete bundle_vtable
     \<lparr>f_root = ''/Apps/Tool.app'', f_executable = ''/Apps/Tool.app/Contents/MacOS/Tool'',
      f_size = 20480, cached_fd = Some 5\<rparr>"

definition file_rep :: "(rep_fields, unit) DiskRep" where
  "file_rep = Concrete file_vtable
     \<lparr>f_root = ''/bin/script'', f_executable = ''/bin/script'', f_size = 812, cached_fd = None\<rparr>"

definition filtered_heap :: "(rep_fields, unit) heap" where
  "filtered_heap = [0 \<mapsto> bundle_rep, 1 \<mapsto> FilterRep () 0, 2 \<mapsto> file_rep, 3 \<mapsto> FilterRep () 2]"

text \<open>The private fields of the concrete object at an address, to look at a heap.\<close>

definition fields_at :: "('st, 'f) heap \<Rightarrow> addr \<Rightarrow> 'st option" where
  "fields_at h a =
     (case h a of
        None \<Rightarrow> None
      | Some (Concrete vt st) \<Rightarrow> Some st
      | Some (FilterRep k orig) \<Rightarrow> None)"

section \<open>Properties\<close>

subsection \<open>Filters\<close>

text \<open>
  Claim C1. For a \<^verbatim>\<open>FilterRep\<close> \<open>F\<close> constructed over a representation \<open>R\<close>, each of
  the seven queries \<^verbatim>\<open>mainExecutablePath\<close>, \<^verbatim>\<open>canonicalPath\<close>,
  \<^verbatim>\<open>recommendedIdentifier\<close>, \<^verbatim>\<open>format\<close>, \<^verbatim>\<open>signingBase\<close>, \<^verbatim>\<open>signingLimit\<close> and
  \<^verbatim>\<open>fd\<close> gives on \<open>F\<close> exactly what it gives on \<open>R\<close>: the same value or the same
  exception, and the same heap afterwards.
\<close>

theorem filter_delegation:
  assumes "h F = Some (FilterRep k R)"
  shows "mainExecutablePath F h = mainExecutablePath R h
       \<and> canonicalPath F h = canonicalPath R h
       \<and> recommendedIdentifier F h = recommendedIdentifier R h
       \<and> format F h = format R h
       \<and> signingBase F h = signingBase R h
       \<and> signingLimit F h = signingLimit R h
       \<and> fd F h = fd R h"
proof -
  have "mainExecutablePath F h = mainExecutablePath R h"
    by (subst mainExecutablePath.simps) (simp add: assms)
  moreover have "canonicalPath F h = canonicalPath R h"
    by (subst canonicalPath.simps) (simp add: assms)
  moreover have "recommendedIdentifier F h = recommendedIdentifier R h"
    by (subst recommendedIdentifier.simps) (simp add: assms)
  moreover have "format F h = format R h"
    by (subst format.simps) (simp add: assms)
  moreover have "signingBase F h = signingBase R h"
    by (subst signingBase.simps) (simp add: assms)
  moreover have "signingLimit F h = signingLimit R h"
    by (subst signingLimit.simps) (simp add: assms)
  moreover have "fd F h = fd R h"
    by (subst fd.simps) (simp add: assms)
  ultimately show ?thesis by simp
qed

text \<open>On the example heap, the filter at address 1 answers with the bundle's values.\<close>

theorem filter_delegation_witness:
  "filtered_heap 1 = Some (FilterRep () 0)
   \<and> map_option fst (mainExecutablePath 1 filtered_heap) = Some (Inr ''/Apps/Tool.app/Contents/MacOS/Tool'')
   \<and> map_option fst (canonicalPath 1 filtered_heap) = Some (Inr (Some ''/Apps/Tool.app''))
   \<and> map_option fst (recommendedIdentifier 1 filtered_heap) = Some (Inr ''com.example.tool'')
   \<and> map_option fst (format 1 filtered_heap) = Some (Inr ''bundle with Mach-O'')
   \<and> map_option fst (signingBase 1 filtered_heap) = Some (Inr 4096)
   \<and> map_option fst (signingLimit 1 filtered_heap) = Some (Inr 20480)
   \<and> map_option fst (fd 1 filtered_heap) = Some (Inr 5)"
proof -
  have filter: "filtered_heap 1 = Some (FilterRep () 0)"
    by (simp add: filtered_heap_def)
  have "map_option fst (mainExecutablePath 0 filtered_heap) = Some (Inr ''/Apps/Tool.app/Contents/MacOS/Tool'')"
    by code_simp
  moreover have "map_option fst (canonicalPath 0 filtered_heap) = Some (Inr (Some ''/Apps/Tool.app''))"
    by code_simp
  moreover have "map_option fst (recommendedIdentifier 0 filtered_heap) = Some (Inr ''com.example.tool'')"
    by code_simp
  moreover have "map_option fst (format 0 filtered_heap) = Some (Inr ''bundle with Mach-O'')"
    by code_simp
  moreover have "map_option fst (signingBase 0 filtered_heap) = Some (Inr 4096)"
    by code_simp
  moreover have "map_option fst (signingLimit 0 filtered_heap) = Some (Inr 20480)"
    by code_simp
  moreover have "map_option fst (fd 0 filtered_heap) = Some (Inr 5)"
    by code_simp
  ultimately show ?thesis
    using filter filter_delegation [where h = filtered_heap and F = 1 and k = "()" and R = 0, OF filter]
    by simp
qed

text \<open>
  A \<^verbatim>\<open>flush()\<close> changes the fields of concrete objects only: every filter object of the
  heap is the same afterwards.
\<close>

lemma flush_keeps_filters_aux:
  "flush this h = Some y \<Longrightarrow>
   \<forall>x k orig. h x = Some (FilterRep k orig) \<longrightarrow> snd y x = Some (FilterRep k orig)"
proof (rule flush.raw_induct
    [where P = "\<lambda>this h y. \<forall>x k orig. h x = Some (FilterRep k orig) \<longrightarrow> snd y x = Some (FilterRep k orig)"])
  fix flush' :: "addr \<Rightarrow> ('a, 'b) heap \<Rightarrow> (unit, 'a, 'b) call" and this h y
  assume IH: "\<And>t g z. flush' t g = Some z \<Longrightarrow>
     \<forall>x k orig. g x = Some (FilterRep k orig) \<longrightarrow> snd z x = Some (FilterRep k orig)"
  assume step: "(case h this of None \<Rightarrow> None
      | Some (Concrete vt st) \<Rightarrow>
          (case impl_flush vt of None \<Rightarrow> Some (DiskRep_flush this h)
           | Some m \<Rightarrow> Some (invoke this h vt m st))
      | Some (FilterRep k orig) \<Rightarrow> flush' orig h) = Some y"
  show "\<forall>x k orig. h x = Some (FilterRep k orig) \<longrightarrow> snd y x = Some (FilterRep k orig)"
  proof (cases "h this")
    case None
    with step show ?thesis by simp
  next
    case (Some obj)
    show ?thesis
    proof (cases obj)
      case (Concrete vt st)
      with Some step show ?thesis
        by (auto simp: invoke_def DiskRep_flush_def split: option.splits prod.splits)
    next
      case (FilterRep k' orig')
      with Some step have "flush' orig' h = Some y" by simp
      from IH[OF this] show ?thesis .
    qed
  qed
qed

lemma flush_keeps_filters:
  assumes "flush this h = Some (r, h')" and "h x = Some (FilterRep k orig)"
  shows "h' x = Some (FilterRep k orig)"
  using flush_keeps_filters_aux [OF assms(1)] assms(2) by simp

text \<open>
  Claim C10. For a \<^verbatim>\<open>FilterRep\<close> \<open>F\<close> over \<open>R\<close>, \<^verbatim>\<open>F.flush()\<close> is exactly
  \<^verbatim>\<open>R.flush()\<close>: it gives the same result and leaves the same heap, so every holder
  of \<open>R\<close> sees what a direct \<^verbatim>\<open>R.flush()\<close> would have left; and the filter object
  itself is the same after the call as before it.
\<close>

theorem filter_flush:
  assumes "h F = Some (FilterRep k R)"
  shows "flush F h = flush R h \<and> (\<forall>r h'. flush F h = Some (r, h') \<longrightarrow> h' F = h F)"
proof -
  have "flush F h = flush R h"
    by (subst flush.simps) (simp add: assms)
  moreover have "\<forall>r h'. flush F h = Some (r, h') \<longrightarrow> h' F = h F"
  proof (intro allI impI)
    fix r h'
    assume "flush F h = Some (r, h')"
    from flush_keeps_filters [OF this assms] show "h' F = h F"
      by (simp add: assms)
  qed
  ultimately show ?thesis by simp
qed

text \<open>On the example heap, flushing through the filter at address 1 drops the cached
  descriptor of the bundle at address 0 and leaves the filter as it was.\<close>

theorem filter_flush_witness:
  "filtered_heap 1 = Some (FilterRep () 0)
   \<and> fields_at filtered_heap 0 = Some \<lparr>f_root = ''/Apps/Tool.app'',
        f_executable = ''/Apps/Tool.app/Contents/MacOS/Tool'', f_size = 20480, cached_fd = Some 5\<rparr>
   \<and> map_option (\<lambda>(r, h'). (r, fields_at h' 0)) (flush 1 filtered_heap)
       = Some (Inr (), Some \<lparr>f_root = ''/Apps/Tool.app'',
           f_executable = ''/Apps/Tool.app/Contents/MacOS/Tool'', f_size = 20480, cached_fd = None\<rparr>)
   \<and> map_option (\<lambda>(r, h'). h' 1) (flush 1 filtered_heap) = Some (Some (FilterRep () 0))"
proof -
  have filter: "filtered_heap 1 = Some (FilterRep () 0)"
    by (simp add: filtered_heap_def)
  note inst = filter_flush [where h = filtered_heap and F = 1 and k = "()" and R = 0, OF filter]
  have before: "fields_at filtered_heap 0 = Some \<lparr>f_root = ''/Apps/Tool.app'',
        f_executable = ''/Apps/Tool.app/Contents/MacOS/Tool'', f_size = 20480, cached_fd = Some 5\<rparr>"
    by code_simp
  have ev: "map_option (\<lambda>(r, h'). (r, fields_at h' 0)) (flush 0 filtered_heap)
       = Some (Inr (), Some \<lparr>f_root = ''/Apps/Tool.app'',
           f_executable = ''/Apps/Tool.app/Contents/MacOS/Tool'', f_size = 20480, cached_fd = None\<rparr>)"
    by code_simp
  from inst have eq: "flush 1 filtered_heap = flush 0 filtered_heap" by simp
  from ev eq obtain r h' where res: "flush 1 filtered_heap = Some (r, h')"
    by (cases "flush 1 filtered_heap") auto
  with inst filter have "h' 1 = Some (FilterRep () 0)" by simp
  with res have "map_option (\<lambda>(r, h'). h' 1) (flush 1 filtered_heap) = Some (Some (FilterRep () 0))"
    by simp
  with filter before ev eq show ?thesis by simp
qed

text \<open>
  The other member functions that \<^verbatim>\<open>FilterRep\<close> defines are handed to the original in
  the same way.
\<close>

lemma filter_delegation_rest:
  assumes "h F = Some (FilterRep k R)"
  shows "identification F h = identification R h"
    and "resourcesRootPath F h = resourcesRootPath R h"
    and "defaultResourceRules F h = defaultResourceRules R h"
    and "mainExecutableImage F h = mainExecutableImage R h"
proof -
  show "identification F h = identification R h"
    by (subst identification.simps) (simp add: assms)
  show "resourcesRootPath F h = resourcesRootPath R h"
    by (subst resourcesRootPath.simps) (simp add: assms)
  show "defaultResourceRules F h = defaultResourceRules R h"
    by (subst defaultResourceRules.simps) (simp add: assms)
  show "mainExecutableImage F h = mainExecutableImage R h"
    by (subst mainExecutableImage.simps) (simp add: assms)
qed

text \<open>
  \<^verbatim>\<open>pageSize\<close>, \<^verbatim>\<open>adjustResources\<close>, \<^verbatim>\<open>defaultRequirements\<close> and \<^verbatim>\<open>modifiedFiles\<close>
  are not among them: on a filter they run the body of \<^verbatim>\<open>DiskRep\<close>, whatever the
  original's class defines.
\<close>

lemma filter_runs_DiskRep_bodies:
  assumes "h F = Some (FilterRep k R)"
  shows "pageSize F h = DiskRep_pageSize F h"
    and "adjustResources F builder h = Some (DiskRep_adjustResources F builder h)"
    and "defaultRequirements F a h = Some (DiskRep_defaultRequirements F a h)"
    and "modifiedFiles F h = Some (DiskRep_modifiedFiles F h)"
  by (simp_all add: assms pageSize_def adjustResources_def defaultRequirements_def
      modifiedFiles_def)

text \<open>
  Claim C2 says that every code-identity query other than \<^verbatim>\<open>component()\<close>, among them
  \<^verbatim>\<open>adjustResources\<close>, \<^verbatim>\<open>defaultRequirements\<close>, \<^verbatim>\<open>pageSize\<close> and
  \<^verbatim>\<open>modifiedFiles\<close>, is forwarded verbatim to the original. On the example heap the
  bundle at address 0 overrides \<^verbatim>\<open>defaultRequirements\<close> and \<^verbatim>\<open>adjustResources\<close>, and
  the filter over it at address 1 does not give the bundle's answers: it has no default
  requirements and leaves the builder as it is.
\<close>

theorem filter_misses_overrides:
  "filtered_heap 1 = Some (FilterRep () 0)
   \<and> map_option fst (defaultRequirements 0 None filtered_heap) = Some (Inr (Some [(2, ''library'')]))
   \<and> map_option fst (defaultRequirements 1 None filtered_heap) = Some (Inr None)
   \<and> map_option fst (adjustResources 0 [] filtered_heap) = Some (Inr [''^version.plist$''])
   \<and> map_option fst (adjustResources 1 [] filtered_heap) = Some (Inr [])"
proof -
  have "filtered_heap 1 = Some (FilterRep () 0)"
    by (simp add: filtered_heap_def)
  moreover have "map_option fst (defaultRequirements 0 None filtered_heap) = Some (Inr (Some [(2, ''library'')]))"
    by code_simp
  moreover have "map_option fst (defaultRequirements 1 None filtered_heap) = Some (Inr None)"
    by code_simp
  moreover have "map_option fst (adjustResources 0 [] filtered_heap) = Some (Inr [''^version.plist$''])"
    by code_simp
  moreover have "map_option fst (adjustResources 1 [] filtered_heap) = Some (Inr [])"
    by code_simp
  ultimately show ?thesis by simp
qed

subsection \<open>Mach-O detection and the default page size\<close>

text \<open>
  Claim C9. For every representation, \<^verbatim>\<open>mainExecutableIsMachO()\<close> returns true exactly
  when \<^verbatim>\<open>mainExecutableImage()\<close> returns a non-null image, and false exactly when it
  returns null; it throws what \<^verbatim>\<open>mainExecutableImage()\<close> throws, and leaves the heap
  that \<^verbatim>\<open>mainExecutableImage()\<close> leaves. The helper and the query cannot disagree.
\<close>

theorem machO_helper_agrees:
  "(mainExecutableIsMachO this h = Some (Inr b, h'))
     = (\<exists>img. mainExecutableImage this h = Some (Inr img, h') \<and> b = (img \<noteq> None))
   \<and> (mainExecutableIsMachO this h = Some (Inl e, h'))
     = (mainExecutableImage this h = Some (Inl e, h'))
   \<and> (mainExecutableIsMachO this h = None) = (mainExecutableImage this h = None)"
  by (auto simp: mainExecutableIsMachO_def split: option.splits prod.splits sum.splits)

text \<open>On the example heap: the filter over the bundle has a Mach-O main executable, the
  flat file has none.\<close>

theorem machO_helper_agrees_witness:
  "map_option fst (mainExecutableImage 1 filtered_heap) = Some (Inr (Some [(Architecture 7 3, 0)]))
   \<and> map_option fst (mainExecutableIsMachO 1 filtered_heap) = Some (Inr True)
   \<and> map_option fst (mainExecutableImage 2 filtered_heap) = Some (Inr None)
   \<and> map_option fst (mainExecutableIsMachO 2 filtered_heap) = Some (Inr False)"
proof -
  have a: "map_option fst (mainExecutableImage 1 filtered_heap) = Some (Inr (Some [(Architecture 7 3, 0)]))"
    by code_simp
  then obtain h1 where i1: "mainExecutableImage 1 filtered_heap = Some (Inr (Some [(Architecture 7 3, 0)]), h1)"
    by (cases "mainExecutableImage 1 filtered_heap") auto
  have b: "map_option fst (mainExecutableImage 2 filtered_heap) = Some (Inr None)"
    by code_simp
  then obtain h2 where i2: "mainExecutableImage 2 filtered_heap = Some (Inr None, h2)"
    by (cases "mainExecutableImage 2 filtered_heap") auto
  from i1 machO_helper_agrees [of 1 filtered_heap True h1]
  have "mainExecutableIsMachO 1 filtered_heap = Some (Inr True, h1)" by simp
  moreover from i2 machO_helper_agrees [of 2 filtered_heap False h2]
  have "mainExecutableIsMachO 2 filtered_heap = Some (Inr False, h2)" by simp
  ultimately show ?thesis using a b by simp
qed

text \<open>
  Claim C7. The two defaults are \<^verbatim>\<open>segmentedPageSize\<close> = 4096 and
  \<^verbatim>\<open>monolithicPageSize\<close> = 0. For every representation whose class does not override
  \<^verbatim>\<open>pageSize()\<close>: if its main executable is Mach-O, \<^verbatim>\<open>pageSize()\<close> returns the
  segmented default, and if it is not, \<^verbatim>\<open>pageSize()\<close> returns the monolithic default;
  so each such representation picks exactly one of the two.
\<close>

theorem default_page_size:
  "segmentedPageSize = 4096 \<and> monolithicPageSize = 0
   \<and> (inherits_pageSize h this \<longrightarrow>
        (\<forall>h'. (mainExecutableIsMachO this h = Some (Inr True, h')
                \<longrightarrow> pageSize this h = Some (Inr segmentedPageSize, h'))
            \<and> (mainExecutableIsMachO this h = Some (Inr False, h')
                \<longrightarrow> pageSize this h = Some (Inr monolithicPageSize, h'))))"
  by (auto simp: segmentedPageSize_def monolithicPageSize_def inherits_pageSize_def pageSize_def
      DiskRep_pageSize_def split: option.splits DiskRep.splits)

text \<open>On the example heap: the bundle (Mach-O) gets 4096, the flat file gets 0.\<close>

theorem default_page_size_witness:
  "inherits_pageSize filtered_heap 0 \<and> inherits_pageSize filtered_heap 2
   \<and> map_option fst (mainExecutableIsMachO 0 filtered_heap) = Some (Inr True)
   \<and> map_option fst (pageSize 0 filtered_heap) = Some (Inr 4096)
   \<and> map_option fst (mainExecutableIsMachO 2 filtered_heap) = Some (Inr False)
   \<and> map_option fst (pageSize 2 filtered_heap) = Some (Inr 0)"
proof -
  have inh: "inherits_pageSize filtered_heap 0" "inherits_pageSize filtered_heap 2"
    by code_simp+
  have a: "map_option fst (mainExecutableIsMachO 0 filtered_heap) = Some (Inr True)"
    by code_simp
  then obtain h0 where m0: "mainExecutableIsMachO 0 filtered_heap = Some (Inr True, h0)"
    by (cases "mainExecutableIsMachO 0 filtered_heap") auto
  have b: "map_option fst (mainExecutableIsMachO 2 filtered_heap) = Some (Inr False)"
    by code_simp
  then obtain h2 where m2: "mainExecutableIsMachO 2 filtered_heap = Some (Inr False, h2)"
    by (cases "mainExecutableIsMachO 2 filtered_heap") auto
  from default_page_size [of filtered_heap 0] inh(1) m0
  have "pageSize 0 filtered_heap = Some (Inr segmentedPageSize, h0)" by blast
  moreover from default_page_size [of filtered_heap 2] inh(2) m2
  have "pageSize 2 filtered_heap = Some (Inr monolithicPageSize, h2)" by blast
  moreover from default_page_size [of filtered_heap 0]
  have "segmentedPageSize = 4096" "monolithicPageSize = 0" by blast+
  ultimately show ?thesis using inh a b by simp
qed

subsection \<open>Resolution\<close>

text \<open>
  Claim C8. A default-constructed \<^verbatim>\<open>Context\<close> has the architecture "none", the offset
  0 and \<^verbatim>\<open>fileOnly\<close> false; and \<^verbatim>\<open>bestFileGuess\<close>, the one operation that changes a
  context, changes its local copy: the caller's context is the same after the call.
\<close>

theorem Context_defaults:
  "arch Context_init = Architecture_none \<and> offset Context_init = 0 \<and> fileOnly Context_init = False
   \<and> caller_ctx (bestFileGuess_locals ctx) = ctx"
  by (simp add: Context_init_def bestFileGuess_locals_def Let_def split: option.splits)

text \<open>
  Claim C5. For every path and every context, absent or not, \<^verbatim>\<open>bestFileGuess\<close> gives
  what \<^verbatim>\<open>bestGuess\<close> gives on the same context with \<^verbatim>\<open>fileOnly\<close> set to true (on the
  default context with \<^verbatim>\<open>fileOnly\<close> set to true when the context is absent); the
  \<^verbatim>\<open>fileOnly\<close> flag of the context passed in makes no difference.
\<close>

theorem bestFileGuess_forces_fileOnly:
  "bestFileGuess disk p ctx
     = bestGuess disk p (Some ((case ctx of None \<Rightarrow> Context_init | Some c \<Rightarrow> c)\<lparr>fileOnly := True\<rparr>))
   \<and> bestFileGuess disk p (Some (c\<lparr>fileOnly := b\<rparr>)) = bestFileGuess disk p (Some c)"
  by (simp add: bestFileGuess_def bestFileGuess_locals_def Let_def split: option.splits)






subsection \<open>SecCode\<close>

text \<open>
  Claim C3. \<^verbatim>\<open>staticCode()\<close> returns the cached \<^verbatim>\<open>SecStaticCode\<close> if the cache is
  populated. Otherwise it calls \<^verbatim>\<open>getStaticCode()\<close>; if that succeeds, it stores the
  result in the cache and returns it; if that fails, \<^verbatim>\<open>staticCode()\<close> fails with the
  same error and the object is as it was, with the cache empty. After a successful call
  every later call returns the same identity, whatever the hook would do then. After a
  failed call a later call calls \<^verbatim>\<open>getStaticCode()\<close> again: it succeeds if the hook
  succeeds then.
\<close>

theorem staticCode_caching:
  fixes g :: "'w getStaticCode"
  shows
  "(mStaticCode c = Some sc \<longrightarrow> staticCode g c w = (Inr sc, c, w))
   \<and> (mStaticCode c = None \<longrightarrow> g c w = (Inr sc, w') \<longrightarrow>
        staticCode g c w = (Inr sc, c\<lparr>mStaticCode := Some sc\<rparr>, w'))
   \<and> (mStaticCode c = None \<longrightarrow> g c w = (Inl e, w') \<longrightarrow>
        staticCode g c w = (Inl e, c, w'))
   \<and> (staticCode g c w = (Inr sc, c', w') \<longrightarrow>
        (\<forall>(g2 :: 'w getStaticCode) w2. staticCode g2 c' w2 = (Inr sc, c', w2)))
   \<and> (staticCode g c w = (Inl e, c', w') \<longrightarrow>
        c' = c \<and> mStaticCode c' = None
        \<and> (\<forall>w2. staticCode g c' w2 =
              (case g c' w2 of
                 (Inl e2, w3) \<Rightarrow> (Inl e2, c', w3)
               | (Inr sc2, w3) \<Rightarrow> (Inr sc2, c'\<lparr>mStaticCode := Some sc2\<rparr>, w3))))"
proof -
  have hit: "mStaticCode c = Some sc \<longrightarrow> staticCode g c w = (Inr sc, c, w)"
    by (simp add: staticCode_def)
  have miss: "mStaticCode c = None \<longrightarrow> g c w = (Inr sc, w') \<longrightarrow>
        staticCode g c w = (Inr sc, c\<lparr>mStaticCode := Some sc\<rparr>, w')"
    by (simp add: staticCode_def)
  have fails: "mStaticCode c = None \<longrightarrow> g c w = (Inl e, w') \<longrightarrow>
        staticCode g c w = (Inl e, c, w')"
    by (simp add: staticCode_def)
  have again: "staticCode g c w = (Inr sc, c', w') \<longrightarrow>
        (\<forall>(g2 :: 'w getStaticCode) w2. staticCode g2 c' w2 = (Inr sc, c', w2))"
    by (auto simp: staticCode_def split: option.splits prod.splits sum.splits)
  have retry: "staticCode g c w = (Inl e, c', w') \<longrightarrow>
        c' = c \<and> mStaticCode c' = None
        \<and> (\<forall>w2. staticCode g c' w2 =
              (case g c' w2 of
                 (Inl e2, w3) \<Rightarrow> (Inl e2, c', w3)
               | (Inr sc2, w3) \<Rightarrow> (Inr sc2, c'\<lparr>mStaticCode := Some sc2\<rparr>, w3)))"
    by (auto simp: staticCode_def split: option.splits prod.splits sum.splits)
  from hit miss fails again retry show ?thesis by blast
qed

text \<open>
  In the example world: while the file is missing the hook fails, the call fails with
  the hook's error and the cache stays empty; once the file is there the next call
  succeeds with the identity 100; the calls after that return 100 again, also when the
  file has gone.
\<close>

theorem staticCode_caching_witness:
  "resolve_on_disk (SecCode_init None) \<lparr>file_present = False, next_free = 100\<rparr>
     = (Inl (IOFailure 2), \<lparr>file_present = False, next_free = 100\<rparr>)
   \<and> staticCode resolve_on_disk (SecCode_init None) \<lparr>file_present = False, next_free = 100\<rparr>
     = (Inl (IOFailure 2), SecCode_init None, \<lparr>file_present = False, next_free = 100\<rparr>)
   \<and> mStaticCode (SecCode_init None) = None
   \<and> staticCode resolve_on_disk (SecCode_init None) \<lparr>file_present = True, next_free = 100\<rparr>
     = (Inr 100, \<lparr>mHost = None, mStaticCode = Some 100\<rparr>, \<lparr>file_present = True, next_free = 101\<rparr>)
   \<and> staticCode resolve_on_disk \<lparr>mHost = None, mStaticCode = Some 100\<rparr>
        \<lparr>file_present = True, next_free = 101\<rparr>
     = (Inr 100, \<lparr>mHost = None, mStaticCode = Some 100\<rparr>, \<lparr>file_present = True, next_free = 101\<rparr>)
   \<and> staticCode resolve_on_disk \<lparr>mHost = None, mStaticCode = Some 100\<rparr>
        \<lparr>file_present = False, next_free = 7\<rparr>
     = (Inr 100, \<lparr>mHost = None, mStaticCode = Some 100\<rparr>, \<lparr>file_present = False, next_free = 7\<rparr>)"
proof -
  let ?c = "SecCode_init None"
  let ?c' = "\<lparr>mHost = None, mStaticCode = Some 100\<rparr>"
  let ?gone = "\<lparr>file_present = False, next_free = 100\<rparr>"
  let ?there = "\<lparr>file_present = True, next_free = 100\<rparr>"
  let ?after = "\<lparr>file_present = True, next_free = 101\<rparr>"
  have empty: "mStaticCode ?c = None"
    by (simp add: SecCode_init_def)
  have hook_fails: "resolve_on_disk ?c ?gone = (Inl (IOFailure 2), ?gone)"
    by (simp add: resolve_on_disk_def)
  have hook: "resolve_on_disk ?c ?there = (Inr 100, ?after)"
    by (simp add: resolve_on_disk_def)
  have upd: "?c\<lparr>mStaticCode := Some 100\<rparr> = ?c'"
    by (simp add: SecCode_init_def)
  note at_gone = staticCode_caching [where c = ?c and sc = 100 and g = resolve_on_disk
      and w = ?gone and w' = ?gone and c' = ?c and e = "IOFailure 2"]
  note at_there = staticCode_caching [where c = ?c and sc = 100 and g = resolve_on_disk
      and w = ?there and w' = ?after and c' = ?c' and e = "IOFailure 2"]
  from at_gone empty hook_fails
  have fail: "staticCode resolve_on_disk ?c ?gone = (Inl (IOFailure 2), ?c, ?gone)"
    by blast
  with at_gone
  have "staticCode resolve_on_disk ?c ?there =
      (case resolve_on_disk ?c ?there of
         (Inl e2, w3) \<Rightarrow> (Inl e2, ?c, w3)
       | (Inr sc2, w3) \<Rightarrow> (Inr sc2, ?c\<lparr>mStaticCode := Some sc2\<rparr>, w3))"
    by blast
  with hook upd have first: "staticCode resolve_on_disk ?c ?there = (Inr 100, ?c', ?after)"
    by simp
  with at_there
  have later: "\<forall>(g2 :: world getStaticCode) w2. staticCode g2 ?c' w2 = (Inr 100, ?c', w2)"
    by blast
  from hook_fails fail empty first later show ?thesis by simp
qed

text \<open>
  Claim C4. For every \<^verbatim>\<open>SecCode\<close>, in every state, \<^verbatim>\<open>isRoot()\<close> is true exactly when
  \<^verbatim>\<open>host()\<close> is null. It is computed from the host pointer alone: a newly constructed
  object is a root exactly when it was given no host, the cache does not enter into it,
  and \<^verbatim>\<open>staticCode()\<close>, which changes the object, changes neither \<^verbatim>\<open>host()\<close> nor
  \<^verbatim>\<open>isRoot()\<close>.
\<close>

theorem isRoot_iff_no_host:
  "isRoot c = (host c = None)
   \<and> isRoot (SecCode_init h) = (h = None)
   \<and> isRoot (c\<lparr>mStaticCode := sc\<rparr>) = isRoot c
   \<and> isRoot (fst (snd (staticCode g c w))) = isRoot c
   \<and> host (fst (snd (staticCode g c w))) = host c"
  by (auto simp: isRoot_def host_def SecCode_init_def staticCode_def
      split: option.splits prod.splits sum.splits)

end
